theory Spec2Isabelle
  imports Complex_Main "HOL-Library.Signed_Division"
begin

section \<open>Numbers, rounding and the random source\<close>

text \<open>
  The dashboard computes with JavaScript numbers. They are modelled as real numbers:
  arithmetic is exact, and NaN and the infinities do not occur. Every call of
  \<^verbatim>\<open>Math.random()\<close> is an input of the model: a function that calls it several times
  takes the sequence of the values it draws, \<open>rnd k\<close> being the value of the \<open>k\<close>-th call,
  and the properties below assume what the library guarantees, \<open>0 \<le> rnd k < 1\<close>.
\<close>

definition unit_draw :: "real \<Rightarrow> bool" where
  "unit_draw r = (0 \<le> r \<and> r < 1)"

text \<open>The source that always draws one half: it leaves every noisy value where it is.\<close>

definition half_draws :: "nat \<Rightarrow> real" where
  "half_draws k = 1 / 2"

text \<open>
  \<^verbatim>\<open>parseFloat(val.toFixed(2))\<close>: \<^verbatim>\<open>toFixed\<close> takes the sign off, prints numbers from
  \<open>10\<^sup>2\<^sup>1\<close> on as they are, and otherwise picks the integer \<open>n\<close> with \<open>n / 100\<close> closest to
  the number, the larger one at a tie.
\<close>

definition toFixed2 :: "real \<Rightarrow> real" where
  "toFixed2 x =
     (if 10 ^ 21 \<le> \<bar>x\<bar> then x
      else sgn x * (real_of_int \<lfloor>\<bar>x\<bar> * 100 + 1 / 2\<rfloor> / 100))"


section \<open>The dense series generator\<close>

text \<open>
  \<^verbatim>\<open>generateDenseData(points, min, max, initialValue)\<close>, the same text in all three
  variants. The loop \<^verbatim>\<open>for (let i = 0; i < points; i++)\<close> is the recursion on \<open>i\<close>;
  iteration \<open>i\<close> draws \<open>rnd (2 i)\<close> for the walk and \<open>rnd (2 i + 1)\<close> for the jitter. The
  value carried to the next iteration is the clamped one, the value pushed is its
  rounding to two decimals.
\<close>

function generateDenseData_loop ::
  "int \<Rightarrow> int \<Rightarrow> real \<Rightarrow> real \<Rightarrow> (nat \<Rightarrow> real) \<Rightarrow> real \<Rightarrow> real list \<Rightarrow> real list" where
  "generateDenseData_loop i points mn mx rnd val data =
     (if i < points then
        (let val1 = val + (rnd (nat (2 * i)) - 0.5) * (mx - mn) * 0.1;
             val2 = val1 + (rnd (nat (2 * i + 1)) - 0.5) * (mx - mn) * 0.05;
             val3 = max mn (min mx val2)
         in generateDenseData_loop (i + 1) points mn mx rnd val3 (data @ [toFixed2 val3]))
      else data)"
  by pat_completeness auto
termination
  by (relation "measure (\<lambda>(i, points, mn, mx, rnd, val, data). nat (points - i))") auto

declare generateDenseData_loop.simps [simp del]

text \<open>
  \<^verbatim>\<open>let val = initialValue || (min + max) / 2\<close>: of the real numbers only \<open>0\<close> is falsy.
\<close>

definition generateDenseData :: "int \<Rightarrow> real \<Rightarrow> real \<Rightarrow> real \<Rightarrow> (nat \<Rightarrow> real) \<Rightarrow> real list" where
  "generateDenseData points mn mx initialValue rnd =
     generateDenseData_loop 0 points mn mx rnd
       (if initialValue \<noteq> 0 then initialValue else (mn + mx) / 2) []"

section \<open>The chart data\<close>

text \<open>
  \<^verbatim>\<open>chartData[mode].ranges[range]\<close>: the keys of \<^verbatim>\<open>ChartDataConfig\<close> and of \<^verbatim>\<open>ranges\<close>
  are datatypes, the objects are functions of the key. A single-line mode holds one data
  array for each range, the mode of type \<^verbatim>\<open>'multi'\<close> holds a list of datasets (one data
  array each) for each range. Labels, colours and units play no part in the updates.
\<close>

datatype Mode = Power | Voltage | Current | Torque

datatype TimeRange = Seconds | Minutes | Hours

datatype ModeData =
    Single "TimeRange \<Rightarrow> real list"
  | Multi "TimeRange \<Rightarrow> real list list"

type_synonym ChartDataConfig = "Mode \<Rightarrow> ModeData"

record ValueRange =
  min_v :: real
  max_v :: real
  init_v :: real

text \<open>
  \<^verbatim>\<open>createModeData\<close>: three calls of the generator, each with the draws of its own call.
\<close>

definition createModeData ::
  "ValueRange \<Rightarrow> ValueRange \<Rightarrow> ValueRange \<Rightarrow> (nat \<Rightarrow> nat \<Rightarrow> real) \<Rightarrow> ModeData" where
  "createModeData valSec valMin valHour rnds =
     Single (\<lambda>rng. case rng of
        Seconds \<Rightarrow> generateDenseData 60 (min_v valSec) (max_v valSec) (init_v valSec) (rnds 0)
      | Minutes \<Rightarrow> generateDenseData 60 (min_v valMin) (max_v valMin) (init_v valMin) (rnds 1)
      | Hours \<Rightarrow> generateDenseData 25 (min_v valHour) (max_v valHour) (init_v valHour) (rnds 2))"

text \<open>
  The four torque datasets FL, FR, RL, RR of one range; \<open>rnds j\<close> are the draws of the
  \<open>j\<close>-th call.
\<close>

definition torqueDatasets ::
  "int \<Rightarrow> (real \<times> real \<times> real) list \<Rightarrow> (nat \<Rightarrow> nat \<Rightarrow> real) \<Rightarrow> real list list" where
  "torqueDatasets points bounds rnds =
     map (\<lambda>(j, (mn, mx, v)). generateDenseData points mn mx v (rnds j))
       (zip [0 ..< length bounds] bounds)"

text \<open>
  \<^verbatim>\<open>chartData\<close>, built when the page loads. \<open>rnds m j\<close> are the draws of the \<open>j\<close>-th
  generator call made for the \<open>m\<close>-th block of the literal (power, voltage, current, then
  the seconds, minutes and hours of torque).
\<close>

definition chartData_init :: "(nat \<Rightarrow> nat \<Rightarrow> nat \<Rightarrow> real) \<Rightarrow> ChartDataConfig" where
  "chartData_init rnds mode =
     (case mode of
        Power \<Rightarrow> createModeData
          \<lparr>min_v = 240, max_v = 290, init_v = 264\<rparr>
          \<lparr>min_v = 255, max_v = 275, init_v = 260\<rparr>
          \<lparr>min_v = 240, max_v = 290, init_v = 265\<rparr> (rnds 0)
      | Voltage \<Rightarrow> createModeData
          \<lparr>min_v = 21.5, max_v = 22.5, init_v = 22.0\<rparr>
          \<lparr>min_v = 21.8, max_v = 22.4, init_v = 22.1\<rparr>
          \<lparr>min_v = 21.0, max_v = 23.0, init_v = 21.5\<rparr> (rnds 1)
      | Current \<Rightarrow> createModeData
          \<lparr>min_v = 11, max_v = 13, init_v = 11.5\<rparr>
          \<lparr>min_v = 11.5, max_v = 12.5, init_v = 12.0\<rparr>
          \<lparr>min_v = 11.0, max_v = 13.0, init_v = 11.2\<rparr> (rnds 2)
      | Torque \<Rightarrow> Multi (\<lambda>rng. case rng of
          Seconds \<Rightarrow> torqueDatasets 60
            [(0.1, 0.2, 0.13), (0.3, 0.4, 0.35), (- 0.3, - 0.2, - 0.28), (0.15, 0.25, 0.18)]
            (rnds 3)
        | Minutes \<Rightarrow> torqueDatasets 60
            [(0.12, 0.16, 0.14), (0.32, 0.38, 0.35), (- 0.32, - 0.25, - 0.29), (0.18, 0.23, 0.20)]
            (rnds 4)
        | Hours \<Rightarrow> torqueDatasets 25
            [(0.1, 0.18, 0.15), (0.3, 0.4, 0.32), (- 0.35, - 0.22, - 0.25), (0.15, 0.25, 0.17)]
            (rnds 5)))"

text \<open>The vertical scale of the voltage chart: \<^verbatim>\<open>createModeData('Voltage', ..., 'V', 20, 24, ...)\<close>.\<close>

definition voltage_chart_min :: real where
  "voltage_chart_min = 20"

definition voltage_chart_max :: real where
  "voltage_chart_max = 24"

section \<open>The motion cycle\<close>

record Command =
  drive :: real
  strafe :: real
  turn :: real

text \<open>
  \<^verbatim>\<open>Math.floor(nowMs / cycleDuration) % 5\<close> with \<^verbatim>\<open>cycleDuration = 4000\<close> (main.ts and the
  first variant of main.js). \<^verbatim>\<open>Date.now()\<close> is an integer; \<^verbatim>\<open>%\<close> is the remainder that takes
  the sign of the dividend, \<open>smod\<close>.
\<close>

definition cycleDuration :: int where
  "cycleDuration = 4000"

definition cycleIndex :: "int \<Rightarrow> int" where
  "cycleIndex nowMs = (nowMs div cycleDuration) smod 5"

text \<open>
  The \<^verbatim>\<open>switch\<close>: \<^verbatim>\<open>drive\<close>, \<^verbatim>\<open>strafe\<close> and \<^verbatim>\<open>turn\<close> start at \<open>0\<close>, case 4 assigns
  \<^verbatim>\<open>turn\<close> only, and there is no default case.
\<close>

definition setpoint :: "int \<Rightarrow> Command" where
  "setpoint nowMs =
     (let c = cycleIndex nowMs in
      if c = 0 then \<lparr>drive = 0, strafe = 0, turn = 0\<rparr>
      else if c = 1 then \<lparr>drive = 0.8, strafe = 0, turn = 0\<rparr>
      else if c = 2 then \<lparr>drive = - 0.5, strafe = 0, turn = 0\<rparr>
      else if c = 3 then \<lparr>drive = 0, strafe = - 0.7, turn = 0\<rparr>
      else if c = 4 then \<lparr>drive = 0, strafe = 0, turn = sin (real_of_int nowMs / 500) * 0.8\<rparr>
      else \<lparr>drive = 0, strafe = 0, turn = 0\<rparr>)"

text \<open>\<^verbatim>\<open>drive += (Math.random() - 0.5) * 0.05\<close>, and the same for the other two axes.\<close>

definition addNoise :: "real \<Rightarrow> Command \<Rightarrow> real \<Rightarrow> real \<Rightarrow> real \<Rightarrow> Command" where
  "addNoise amp c r1 r2 r3 =
     \<lparr>drive = drive c + (r1 - 0.5) * amp,
      strafe = strafe c + (r2 - 0.5) * amp,
      turn = turn c + (r3 - 0.5) * amp\<rparr>"

definition motion :: "int \<Rightarrow> real \<Rightarrow> real \<Rightarrow> real \<Rightarrow> Command" where
  "motion nowMs r1 r2 r3 = addNoise 0.05 (setpoint nowMs) r1 r2 r3"

text \<open>
  The second variant of main.js: \<^verbatim>\<open>cycleDuration = 3000\<close>, six states, a rotation that is
  \<open>0.9\<close> in the first half of its three seconds and \<open>- 0.9\<close> in the second, noise of
  amplitude \<open>0.1\<close>.
\<close>

definition cycleDuration_v3 :: int where
  "cycleDuration_v3 = 3000"

definition cycleIndex_v3 :: "int \<Rightarrow> int" where
  "cycleIndex_v3 nowMs = (nowMs div cycleDuration_v3) smod 6"

definition setpoint_v3 :: "int \<Rightarrow> Command" where
  "setpoint_v3 nowMs =
     (let c = cycleIndex_v3 nowMs in
      if c = 0 then \<lparr>drive = 0, strafe = 0, turn = 0\<rparr>
      else if c = 1 then \<lparr>drive = 0.8, strafe = 0, turn = 0\<rparr>
      else if c = 2 then \<lparr>drive = - 0.6, strafe = 0, turn = 0\<rparr>
      else if c = 3 then \<lparr>drive = 0, strafe = - 0.8, turn = 0\<rparr>
      else if c = 4 then \<lparr>drive = 0, strafe = 0.8, turn = 0\<rparr>
      else if c = 5 then
        (if nowMs smod 3000 < 1500 then \<lparr>drive = 0, strafe = 0, turn = 0.9\<rparr>
         else \<lparr>drive = 0, strafe = 0, turn = - 0.9\<rparr>)
      else \<lparr>drive = 0, strafe = 0, turn = 0\<rparr>)"

definition motion_v3 :: "int \<Rightarrow> real \<Rightarrow> real \<Rightarrow> real \<Rightarrow> Command" where
  "motion_v3 nowMs r1 r2 r3 = addNoise 0.1 (setpoint_v3 nowMs) r1 r2 r3"



section \<open>The electrical model\<close>

definition baseVoltage :: real where
  "baseVoltage = 24.8"

definition voltageLoad :: "Command \<Rightarrow> real" where
  "voltageLoad c = (\<bar>drive c\<bar> + \<bar>strafe c\<bar>) * 1.5"

definition simVoltage :: "Command \<Rightarrow> real \<Rightarrow> real" where
  "simVoltage c r = baseVoltage - voltageLoad c + ((r - 0.5) * 0.1)"

definition simCurrent :: "Command \<Rightarrow> real \<Rightarrow> real" where
  "simCurrent c r = 1.2 + (\<bar>drive c\<bar> + \<bar>strafe c\<bar> + \<bar>turn c\<bar>) * 20 + ((r - 0.5) * 0.5)"

definition simPower :: "Command \<Rightarrow> real \<Rightarrow> real \<Rightarrow> real" where
  "simPower c rv rc = simVoltage c rv * simCurrent c rc"

section \<open>The kinematics projection\<close>

text \<open>The normalised wheel values in the order FL, FR, RL, RR.\<close>

record Wheels =
  fl :: real
  fr :: real
  rl :: real
  rr :: real

text \<open>
  main.ts: the inverse kinematics with \<^verbatim>\<open>L = 0.208\<close>, \<^verbatim>\<open>r_wheel = 0.06\<close> and
  \<^verbatim>\<open>sin_a = cos_a = 0.7071\<close>, normalised by the largest magnitude and at least \<open>10\<close>.
\<close>

definition kinematics_ts :: "Command \<Rightarrow> Wheels" where
  "kinematics_ts c =
     (let L = 0.208; r_wheel = 0.06; sin_a = 0.7071; cos_a = 0.7071;
          vx = strafe c; vy = drive c; vtheta = turn c;
          w1_FR = (- cos_a * vx + sin_a * vy + L * vtheta) / r_wheel;
          w2_FL = (- cos_a * vx - sin_a * vy + L * vtheta) / r_wheel;
          w3_RL = (cos_a * vx - sin_a * vy + L * vtheta) / r_wheel;
          w4_RR = (cos_a * vx + sin_a * vy + L * vtheta) / r_wheel;
          maxVel = max \<bar>w1_FR\<bar> (max \<bar>w2_FL\<bar> (max \<bar>w3_RL\<bar> (max \<bar>w4_RR\<bar> 10.0)))
      in \<lparr>fl = w2_FL / maxVel, fr = w1_FR / maxVel, rl = w3_RL / maxVel, rr = w4_RR / maxVel\<rparr>)"

text \<open>
  main.js, both variants: the mixing \<^verbatim>\<open>fl = drive + strafe + turn\<close>, ..., normalised by
  the largest magnitude and at least \<open>1\<close>.
\<close>

definition kinematics_js :: "Command \<Rightarrow> Wheels" where
  "kinematics_js c =
     (let fl0 = drive c + strafe c + turn c;
          fr0 = drive c - strafe c - turn c;
          rl0 = drive c - strafe c + turn c;
          rr0 = drive c + strafe c - turn c;
          maxM = max \<bar>fl0\<bar> (max \<bar>fr0\<bar> (max \<bar>rl0\<bar> (max \<bar>rr0\<bar> 1.0)))
      in \<lparr>fl = fl0 / maxM, fr = fr0 / maxM, rl = rl0 / maxM, rr = rr0 / maxM\<rparr>)"

section \<open>The tick of main.ts\<close>

record DataBuffer =
  power :: "real list"
  voltage :: "real list"
  current :: "real list"

text \<open>
  The variables the tick reads and writes: \<^verbatim>\<open>chartData\<close>, \<^verbatim>\<open>secBuffer\<close>, \<^verbatim>\<open>minBuffer\<close> and
  \<^verbatim>\<open>lastSecondUpdate\<close>.
\<close>

record SimState =
  chartData :: ChartDataConfig
  secBuffer :: DataBuffer
  minBuffer :: DataBuffer
  lastSecondUpdate :: int

text \<open>
  What one tick reads from outside: the three readings of \<^verbatim>\<open>Date.now()\<close> (for the cycle,
  for the one-second gate, and for the new \<^verbatim>\<open>lastSecondUpdate\<close>) and the draws for the
  noise on the three axes, on the voltage and on the current. The draws for the ping and
  the RPM display only reach the page.
\<close>

record TickInput =
  nowMs :: int
  nowGate :: int
  nowStamp :: int
  rndDrive :: real
  rndStrafe :: real
  rndTurn :: real
  rndVoltage :: real
  rndCurrent :: real

text \<open>The input of a tick whose three clock readings are \<open>t\<close> and whose draws are all \<open>r\<close>.\<close>

definition tick_at :: "int \<Rightarrow> real \<Rightarrow> TickInput" where
  "tick_at t r =
     \<lparr>nowMs = t, nowGate = t, nowStamp = t,
      rndDrive = r, rndStrafe = r, rndTurn = r, rndVoltage = r, rndCurrent = r\<rparr>"

text \<open>\<^verbatim>\<open>dataArr.push(value); dataArr.shift()\<close>\<close>

definition push_shift :: "real list \<Rightarrow> real \<Rightarrow> real list" where
  "push_shift dataArr v = tl (dataArr @ [v])"

text \<open>
  \<^verbatim>\<open>updateModeData\<close>: every mode and range of the model exists, so the first guard never
  returns; a mode of type \<^verbatim>\<open>'multi'\<close> returns at once.
\<close>

definition updateModeData :: "ChartDataConfig \<Rightarrow> Mode \<Rightarrow> TimeRange \<Rightarrow> real \<Rightarrow> ChartDataConfig" where
  "updateModeData cd mode rng v =
     (case cd mode of
        Multi _ \<Rightarrow> cd
      | Single ranges \<Rightarrow> cd(mode := Single (ranges(rng := push_shift (ranges rng) v))))"

text \<open>\<^verbatim>\<open>buf.reduce((a, b) => a + b, 0) / 60\<close>\<close>

definition average60 :: "real list \<Rightarrow> real" where
  "average60 buf = foldl (\<lambda>a b. a + b) 0 buf / 60"

text \<open>The arithmetic mean, as the design document means it.\<close>

definition mean :: "real list \<Rightarrow> real" where
  "mean xs = sum_list xs / real (length xs)"

text \<open>Block A: the seconds series and the seconds buffer take the new sample.\<close>

definition pushSeconds :: "SimState \<Rightarrow> int \<Rightarrow> real \<Rightarrow> real \<Rightarrow> real \<Rightarrow> SimState" where
  "pushSeconds s stamp p v i =
     s\<lparr>lastSecondUpdate := stamp,
       chartData :=
         updateModeData
           (updateModeData (updateModeData (chartData s) Power Seconds p) Voltage Seconds v)
           Current Seconds i,
       secBuffer :=
         \<lparr>power = power (secBuffer s) @ [p],
          voltage = voltage (secBuffer s) @ [v],
          current = current (secBuffer s) @ [i]\<rparr>\<rparr>"

text \<open>Block B, run when \<^verbatim>\<open>secBuffer.power.length >= 60\<close>.\<close>

definition aggregateMinutes :: "SimState \<Rightarrow> SimState" where
  "aggregateMinutes s =
     (let avgPower = average60 (power (secBuffer s));
          avgVoltage = average60 (voltage (secBuffer s));
          avgCurrent = average60 (current (secBuffer s))
      in s\<lparr>chartData :=
             updateModeData
               (updateModeData (updateModeData (chartData s) Power Minutes avgPower)
                  Voltage Minutes avgVoltage)
               Current Minutes avgCurrent,
           minBuffer :=
             \<lparr>power = power (minBuffer s) @ [avgPower],
              voltage = voltage (minBuffer s) @ [avgVoltage],
              current = current (minBuffer s) @ [avgCurrent]\<rparr>,
           secBuffer := \<lparr>power = [], voltage = [], current = []\<rparr>\<rparr>)"

text \<open>Block C, run when \<^verbatim>\<open>minBuffer.power.length >= 60\<close>.\<close>

definition aggregateHours :: "SimState \<Rightarrow> SimState" where
  "aggregateHours s =
     (let avgPower = average60 (power (minBuffer s));
          avgVoltage = average60 (voltage (minBuffer s));
          avgCurrent = average60 (current (minBuffer s))
      in s\<lparr>chartData :=
             updateModeData
               (updateModeData (updateModeData (chartData s) Power Hours avgPower)
                  Voltage Hours avgVoltage)
               Current Hours avgCurrent,
           minBuffer := \<lparr>power = [], voltage = [], current = []\<rparr>\<rparr>)"

text \<open>The samples of one tick.\<close>

definition tickCommand :: "TickInput \<Rightarrow> Command" where
  "tickCommand inp = motion (nowMs inp) (rndDrive inp) (rndStrafe inp) (rndTurn inp)"

definition tickVoltage :: "TickInput \<Rightarrow> real" where
  "tickVoltage inp = simVoltage (tickCommand inp) (rndVoltage inp)"

definition tickCurrent :: "TickInput \<Rightarrow> real" where
  "tickCurrent inp = simCurrent (tickCommand inp) (rndCurrent inp)"

definition tickPower :: "TickInput \<Rightarrow> real" where
  "tickPower inp = tickVoltage inp * tickCurrent inp"

text \<open>
  \<^verbatim>\<open>updateTime\<close> of main.ts, as far as it changes the variables above: the cascade runs
  only when a second has passed since \<^verbatim>\<open>lastSecondUpdate\<close>.
\<close>

definition updateTime :: "SimState \<Rightarrow> TickInput \<Rightarrow> SimState" where
  "updateTime s inp =
     (if nowGate inp - lastSecondUpdate s \<ge> 1000 then
        (let s1 = pushSeconds s (nowStamp inp) (tickPower inp) (tickVoltage inp) (tickCurrent inp);
             s2 = (if length (power (secBuffer s1)) \<ge> 60 then aggregateMinutes s1 else s1);
             s3 = (if length (power (minBuffer s2)) \<ge> 60 then aggregateHours s2 else s2)
         in s3)
      else s)"

text \<open>The state when the page has loaded, and a run of ticks from a state.\<close>

definition initState :: "(nat \<Rightarrow> nat \<Rightarrow> nat \<Rightarrow> real) \<Rightarrow> SimState" where
  "initState rnds =
     \<lparr>chartData = chartData_init rnds,
      secBuffer = \<lparr>power = [], voltage = [], current = []\<rparr>,
      minBuffer = \<lparr>power = [], voltage = [], current = []\<rparr>,
      lastSecondUpdate = 0\<rparr>"

definition runTicks :: "SimState \<Rightarrow> TickInput list \<Rightarrow> SimState" where
  "runTicks s inps = foldl updateTime s inps"

text \<open>A run in which every tick passes the one-second gate.\<close>

fun gated :: "SimState \<Rightarrow> TickInput list \<Rightarrow> bool" where
  "gated s [] = True"
| "gated s (inp # inps) =
     (nowGate inp - lastSecondUpdate s \<ge> 1000 \<and> gated (updateTime s inp) inps)"

text \<open>
  The three buffers of a stage are pushed and cleared together and cleared at 60: in
  every state the ticks reach, they have one length, below 60.
\<close>

definition buffer_ok :: "DataBuffer \<Rightarrow> bool" where
  "buffer_ok b =
     (length (voltage b) = length (power b) \<and> length (current b) = length (power b)
      \<and> length (power b) < 60)"

section \<open>The tick of main.js, first variant\<close>

text \<open>
  The chart's datasets share their data arrays with \<^verbatim>\<open>chartData\<close>: \<^verbatim>\<open>getDatasetForMode\<close>
  puts the array objects of \<^verbatim>\<open>chartData\<close> into the datasets it returns. A dataset is
  therefore a reference into \<^verbatim>\<open>chartData\<close>, and a push through it changes \<^verbatim>\<open>chartData\<close>.
\<close>

datatype DataRef =
    SingleRef Mode TimeRange
  | MultiRef Mode TimeRange nat

definition getDatasetForMode :: "ChartDataConfig \<Rightarrow> Mode \<Rightarrow> TimeRange \<Rightarrow> DataRef list" where
  "getDatasetForMode cd mode rng =
     (case cd mode of
        Multi ranges \<Rightarrow> map (MultiRef mode rng) [0 ..< length (ranges rng)]
      | Single _ \<Rightarrow> [SingleRef mode rng])"

text \<open>Reading and writing the array behind a reference; a reference to nothing reads as empty.\<close>

fun readRef :: "ChartDataConfig \<Rightarrow> DataRef \<Rightarrow> real list" where
  "readRef cd (SingleRef mode rng) =
     (case cd mode of Single ranges \<Rightarrow> ranges rng | Multi _ \<Rightarrow> [])"
| "readRef cd (MultiRef mode rng k) =
     (case cd mode of
        Multi ranges \<Rightarrow> (if k < length (ranges rng) then ranges rng ! k else [])
      | Single _ \<Rightarrow> [])"

fun writeRef :: "ChartDataConfig \<Rightarrow> DataRef \<Rightarrow> real list \<Rightarrow> ChartDataConfig" where
  "writeRef cd (SingleRef mode rng) xs =
     (case cd mode of Single ranges \<Rightarrow> cd(mode := Single (ranges(rng := xs))) | Multi _ \<Rightarrow> cd)"
| "writeRef cd (MultiRef mode rng k) xs =
     (case cd mode of
        Multi ranges \<Rightarrow> cd(mode := Multi (ranges(rng := (ranges rng)[k := xs])))
      | Single _ \<Rightarrow> cd)"

record JsState =
  chartData_js :: ChartDataConfig
  currentMode :: Mode
  currentTimeRange :: TimeRange
  datasets :: "DataRef list"

text \<open>
  Section 7 of \<^verbatim>\<open>updateTime\<close> in the first variant of main.js: the new value follows the
  current mode, and it is pushed only when the chart shows exactly one dataset.
\<close>

definition updateTime_js :: "JsState \<Rightarrow> TickInput \<Rightarrow> JsState" where
  "updateTime_js s inp =
     (let newVal =
            (if currentMode s = Power then tickPower inp
             else if currentMode s = Voltage then tickVoltage inp
             else if currentMode s = Current then tickCurrent inp
             else 0)
      in case datasets s of
           [ref] \<Rightarrow>
             s\<lparr>chartData_js :=
                 writeRef (chartData_js s) ref (push_shift (readRef (chartData_js s) ref) newVal)\<rparr>
         | _ \<Rightarrow> s)"

text \<open>
  \<^verbatim>\<open>updateChart\<close>, called by the two segmented controls after they set \<^verbatim>\<open>currentMode\<close> or
  \<^verbatim>\<open>currentTimeRange\<close>.
\<close>

definition updateChart :: "JsState \<Rightarrow> JsState" where
  "updateChart s =
     s\<lparr>datasets := getDatasetForMode (chartData_js s) (currentMode s) (currentTimeRange s)\<rparr>"

datatype Event = Tick TickInput | SelectMode Mode | SelectRange TimeRange

fun step_js :: "JsState \<Rightarrow> Event \<Rightarrow> JsState" where
  "step_js s (Tick inp) = updateTime_js s inp"
| "step_js s (SelectMode m) = updateChart (s\<lparr>currentMode := m\<rparr>)"
| "step_js s (SelectRange r) = updateChart (s\<lparr>currentTimeRange := r\<rparr>)"

definition initState_js :: "(nat \<Rightarrow> nat \<Rightarrow> nat \<Rightarrow> real) \<Rightarrow> JsState" where
  "initState_js rnds =
     \<lparr>chartData_js = chartData_init rnds,
      currentMode = Power,
      currentTimeRange = Seconds,
      datasets = getDatasetForMode (chartData_init rnds) Power Seconds\<rparr>"

definition run_js :: "JsState \<Rightarrow> Event list \<Rightarrow> JsState" where
  "run_js s evs = foldl step_js s evs"

section \<open>Observations on the chart data\<close>

text \<open>Whether a mode is a single-line one, and the series it holds for a range.\<close>

definition single_line :: "ChartDataConfig \<Rightarrow> Mode \<Rightarrow> bool" where
  "single_line cd mode = (case cd mode of Single _ \<Rightarrow> True | Multi _ \<Rightarrow> False)"

definition series :: "ChartDataConfig \<Rightarrow> Mode \<Rightarrow> TimeRange \<Rightarrow> real list" where
  "series cd mode rng = (case cd mode of Single ranges \<Rightarrow> ranges rng | Multi _ \<Rightarrow> [])"

text \<open>The number of points of a series: 60 labels for seconds and minutes, 25 for hours.\<close>

fun capacity :: "TimeRange \<Rightarrow> nat" where
  "capacity Seconds = 60"
| "capacity Minutes = 60"
| "capacity Hours = 25"

text \<open>
  A chart whose single-line series are constant and whose torque datasets hold one
  value each at \<open>x\<close>, and a state over it with given buffers.
\<close>

definition flat_chart :: "real \<Rightarrow> ChartDataConfig" where
  "flat_chart x mode =
     (if mode = Torque then Multi (\<lambda>rng. [[x], [x], [x], [x]])
      else Single (\<lambda>rng. replicate (capacity rng) x))"

definition flat_buffer :: "nat \<Rightarrow> real \<Rightarrow> DataBuffer" where
  "flat_buffer n x = \<lparr>power = replicate n x, voltage = replicate n x, current = replicate n x\<rparr>"

definition flat_state :: "nat \<Rightarrow> nat \<Rightarrow> SimState" where
  "flat_state n k =
     \<lparr>chartData = flat_chart 0, secBuffer = flat_buffer n 1, minBuffer = flat_buffer k 2,
      lastSecondUpdate = 0\<rparr>"

definition flat_state_js :: JsState where
  "flat_state_js =
     \<lparr>chartData_js = flat_chart 0, currentMode = Power, currentTimeRange = Seconds,
      datasets = [SingleRef Power Seconds]\<rparr>"

text \<open>The draws of the page load when every call of the generator draws one half.\<close>

definition half_rnds :: "nat \<Rightarrow> nat \<Rightarrow> nat \<Rightarrow> real" where
  "half_rnds m j k = 1 / 2"

text \<open>
  The chart shows the datasets of the current mode and range: true when the page has
  loaded, and \<^verbatim>\<open>updateChart\<close> restores it after every change of mode or range.
\<close>

definition linked :: "JsState \<Rightarrow> bool" where
  "linked s =
     (datasets s = getDatasetForMode (chartData_js s) (currentMode s) (currentTimeRange s))"

section \<open>Properties of the dense series generator\<close>




lemma generateDenseData_loop_length:
  "length (generateDenseData_loop i points mn mx rnd val data) = length data + nat (points - i)"
proof (induction i points mn mx rnd val data rule: generateDenseData_loop.induct)
  case (1 i points mn mx rnd val data)
  show ?case
  proof (cases "i < points")
    case True
    then have n: "nat (points - i) = Suc (nat (points - (i + 1)))" by simp
    show ?thesis
      using "1.IH" [OF True refl refl refl] True
      by (subst generateDenseData_loop.simps) (simp add: Let_def n)
  next
    case False
    then show ?thesis by (subst generateDenseData_loop.simps) simp
  qed
qed






text \<open>
  C10: called with the initial value \<open>0\<close>, the generator starts its walk from the
  midpoint \<open>(min + max) / 2\<close>, not from \<open>0\<close>: it returns what the loop returns from the
  midpoint, which is what a call with the midpoint as initial value returns.
\<close>

theorem generateDenseData_zero_initial:
  "generateDenseData points mn mx 0 rnd =
     generateDenseData_loop 0 points mn mx rnd ((mn + mx) / 2) []
   \<and> generateDenseData points mn mx 0 rnd = generateDenseData points mn mx ((mn + mx) / 2) rnd"
  by (simp add: generateDenseData_def)

theorem generateDenseData_zero_initial_witness:
  "generateDenseData 1 10 20 0 half_draws = [15]
   \<and> generateDenseData 1 10 20 0 half_draws = generateDenseData 1 10 20 15 half_draws"
  using generateDenseData_zero_initial [of 1 10 20 half_draws]
  by (simp add: generateDenseData_def generateDenseData_loop.simps toFixed2_def half_draws_def)

section \<open>Properties of the kinematics projection\<close>

lemma normalised_le_one:
  fixes x m :: real
  assumes "0 < m" and "\<bar>x\<bar> \<le> m"
  shows "\<bar>x / m\<bar> \<le> 1"
  using assms by (simp add: abs_if field_simps split: if_splits)

lemma kinematics_ts_normalised:
  "\<bar>fl (kinematics_ts c)\<bar> \<le> 1 \<and> \<bar>fr (kinematics_ts c)\<bar> \<le> 1
   \<and> \<bar>rl (kinematics_ts c)\<bar> \<le> 1 \<and> \<bar>rr (kinematics_ts c)\<bar> \<le> 1"
proof -
  define w1 where "w1 = (- 0.7071 * strafe c + 0.7071 * drive c + 0.208 * turn c) / 0.06"
  define w2 where "w2 = (- 0.7071 * strafe c - 0.7071 * drive c + 0.208 * turn c) / 0.06"
  define w3 where "w3 = (0.7071 * strafe c - 0.7071 * drive c + 0.208 * turn c) / 0.06"
  define w4 where "w4 = (0.7071 * strafe c + 0.7071 * drive c + 0.208 * turn c) / 0.06"
  define m where "m = max \<bar>w1\<bar> (max \<bar>w2\<bar> (max \<bar>w3\<bar> (max \<bar>w4\<bar> 10.0)))"
  have k: "kinematics_ts c = \<lparr>fl = w2 / m, fr = w1 / m, rl = w3 / m, rr = w4 / m\<rparr>"
    unfolding kinematics_ts_def Let_def w1_def w2_def w3_def w4_def m_def by (rule refl)
  have pos: "0 < m" unfolding m_def by (simp add: less_max_iff_disj)
  have "\<bar>w1 / m\<bar> \<le> 1" by (rule normalised_le_one [OF pos]) (simp add: m_def le_max_iff_disj)
  moreover have "\<bar>w2 / m\<bar> \<le> 1" by (rule normalised_le_one [OF pos]) (simp add: m_def le_max_iff_disj)
  moreover have "\<bar>w3 / m\<bar> \<le> 1" by (rule normalised_le_one [OF pos]) (simp add: m_def le_max_iff_disj)
  moreover have "\<bar>w4 / m\<bar> \<le> 1" by (rule normalised_le_one [OF pos]) (simp add: m_def le_max_iff_disj)
  ultimately show ?thesis unfolding k by simp
qed

lemma kinematics_js_normalised:
  "\<bar>fl (kinematics_js c)\<bar> \<le> 1 \<and> \<bar>fr (kinematics_js c)\<bar> \<le> 1
   \<and> \<bar>rl (kinematics_js c)\<bar> \<le> 1 \<and> \<bar>rr (kinematics_js c)\<bar> \<le> 1"
proof -
  define w1 where "w1 = drive c + strafe c + turn c"
  define w2 where "w2 = drive c - strafe c - turn c"
  define w3 where "w3 = drive c - strafe c + turn c"
  define w4 where "w4 = drive c + strafe c - turn c"
  define m where "m = max \<bar>w1\<bar> (max \<bar>w2\<bar> (max \<bar>w3\<bar> (max \<bar>w4\<bar> 1.0)))"
  have k: "kinematics_js c = \<lparr>fl = w1 / m, fr = w2 / m, rl = w3 / m, rr = w4 / m\<rparr>"
    unfolding kinematics_js_def Let_def w1_def w2_def w3_def w4_def m_def by (rule refl)
  have pos: "0 < m" unfolding m_def by (simp add: less_max_iff_disj)
  have "\<bar>w1 / m\<bar> \<le> 1" by (rule normalised_le_one [OF pos]) (simp add: m_def le_max_iff_disj)
  moreover have "\<bar>w2 / m\<bar> \<le> 1" by (rule normalised_le_one [OF pos]) (simp add: m_def le_max_iff_disj)
  moreover have "\<bar>w3 / m\<bar> \<le> 1" by (rule normalised_le_one [OF pos]) (simp add: m_def le_max_iff_disj)
  moreover have "\<bar>w4 / m\<bar> \<le> 1" by (rule normalised_le_one [OF pos]) (simp add: m_def le_max_iff_disj)
  ultimately show ?thesis unfolding k by simp
qed

text \<open>
  C4: for every motion command, each of the four normalised wheel outputs has absolute
  value at most \<open>1\<close>, in the projection of main.ts and in the one of main.js.
\<close>

theorem kinematics_normalised:
  "\<bar>fl (kinematics_ts c)\<bar> \<le> 1 \<and> \<bar>fr (kinematics_ts c)\<bar> \<le> 1
   \<and> \<bar>rl (kinematics_ts c)\<bar> \<le> 1 \<and> \<bar>rr (kinematics_ts c)\<bar> \<le> 1
   \<and> \<bar>fl (kinematics_js c)\<bar> \<le> 1 \<and> \<bar>fr (kinematics_js c)\<bar> \<le> 1
   \<and> \<bar>rl (kinematics_js c)\<bar> \<le> 1 \<and> \<bar>rr (kinematics_js c)\<bar> \<le> 1"
  using kinematics_ts_normalised [of c] kinematics_js_normalised [of c] by blast

theorem kinematics_normalised_witness:
  "fl (kinematics_js \<lparr>drive = 1, strafe = 1, turn = 1\<rparr>) = 1
   \<and> fr (kinematics_js \<lparr>drive = 1, strafe = 1, turn = 1\<rparr>) = - 1 / 3
   \<and> \<bar>fl (kinematics_ts \<lparr>drive = 1, strafe = 1, turn = 1\<rparr>)\<bar> \<le> 1"
  using kinematics_normalised [of "\<lparr>drive = 1, strafe = 1, turn = 1\<rparr>"]
  by (simp add: kinematics_js_def)

section \<open>Properties of the motion cycle\<close>

lemma smod_nonneg: "0 \<le> k \<Longrightarrow> 0 < n \<Longrightarrow> k smod n = k mod (n::int)"
  by (simp add: signed_modulo_int_def sgn_if)

lemma cycleIndex_nonneg:
  "0 \<le> t \<Longrightarrow> cycleIndex t = (t div cycleDuration) mod 5"
  by (simp add: cycleIndex_def cycleDuration_def smod_nonneg pos_imp_zdiv_nonneg_iff)










lemma cycleIndex_multiple: "cycleIndex (int k * cycleDuration) = int (k mod 5)"
proof -
  have "0 \<le> int k * cycleDuration" by (simp add: cycleDuration_def)
  then have "cycleIndex (int k * cycleDuration) = (int k * cycleDuration div cycleDuration) mod 5"
    by (rule cycleIndex_nonneg)
  also have "\<dots> = int k mod 5" by (simp add: cycleDuration_def)
  finally show ?thesis by (simp add: zmod_int)
qed

lemma noise_small:
  assumes "unit_draw r"
  shows "\<bar>(r - 0.5) * 0.05\<bar> \<le> 1 / 40"
  using assms by (simp add: unit_draw_def abs_if)

lemma motion_cycle_start:
  assumes "unit_draw r1" and "unit_draw r2" and "unit_draw r3"
  shows "cycleIndex (int k * cycleDuration) = int (k mod 5)
    \<and> (k mod 5 = 0 \<longrightarrow>
         \<bar>drive (motion (int k * cycleDuration) r1 r2 r3)\<bar> \<le> 0.05
         \<and> \<bar>strafe (motion (int k * cycleDuration) r1 r2 r3)\<bar> \<le> 0.05
         \<and> \<bar>turn (motion (int k * cycleDuration) r1 r2 r3)\<bar> \<le> 0.05)"
proof (intro conjI impI)
  show "cycleIndex (int k * cycleDuration) = int (k mod 5)" by (rule cycleIndex_multiple)
next
  assume "k mod 5 = 0"
  then have c: "cycleIndex (int k * cycleDuration) = 0" by (simp add: cycleIndex_multiple)
  have m: "motion (int k * cycleDuration) r1 r2 r3
      = \<lparr>drive = (r1 - 0.5) * 0.05, strafe = (r2 - 0.5) * 0.05, turn = (r3 - 0.5) * 0.05\<rparr>"
    by (simp add: motion_def setpoint_def c addNoise_def)
  show "\<bar>drive (motion (int k * cycleDuration) r1 r2 r3)\<bar> \<le> 0.05"
    using noise_small [OF assms(1)] by (simp add: m)
  show "\<bar>strafe (motion (int k * cycleDuration) r1 r2 r3)\<bar> \<le> 0.05"
    using noise_small [OF assms(2)] by (simp add: m)
  show "\<bar>turn (motion (int k * cycleDuration) r1 r2 r3)\<bar> \<le> 0.05"
    using noise_small [OF assms(3)] by (simp add: m)
qed

text \<open>
  C5, as stated: for every natural number \<open>k\<close>, at the timestamp \<open>k * cycleDurationMs\<close> the
  cycle index is \<open>0\<close> and drive, strafe and turn are within \<open>0.05\<close> of \<open>0\<close>. At \<open>k = 1\<close> the
  index is \<open>1\<close>, the forward state, and the drive is \<open>0.8\<close>.
\<close>

theorem cycle_start_counterexample:
  "nowMs (tick_at (1 * cycleDuration) (1 / 2)) = 1 * cycleDuration
   \<and> cycleIndex (1 * cycleDuration) = 1
   \<and> drive (tickCommand (tick_at (1 * cycleDuration) (1 / 2))) = 0.8
   \<and> \<not> \<bar>drive (tickCommand (tick_at (1 * cycleDuration) (1 / 2)))\<bar> \<le> 0.05"
proof -
  have c: "cycleIndex 4000 = 1"
    by (simp add: cycleIndex_def cycleDuration_def signed_modulo_int_def)
  show ?thesis
    using c by (simp add: tick_at_def tickCommand_def cycleDuration_def motion_def setpoint_def addNoise_def)
qed

text \<open>
  C5, amended: for every natural number \<open>k\<close>, at the timestamp \<open>k * cycleDurationMs\<close> the
  cycle index is \<open>k mod 5\<close>; when \<open>k\<close> is a multiple of 5, the number of states, the index
  is \<open>0\<close> (the idle state) and the emitted drive, strafe and turn are each within the
  noise bound \<open>0.05\<close> of \<open>0\<close>.
\<close>

theorem cycle_start_idle:
  assumes "unit_draw (rndDrive inp)" and "unit_draw (rndStrafe inp)" and "unit_draw (rndTurn inp)"
    and "nowMs inp = int k * cycleDuration"
  shows "cycleIndex (nowMs inp) = int (k mod 5)
    \<and> (k mod 5 = 0 \<longrightarrow>
         \<bar>drive (tickCommand inp)\<bar> \<le> 0.05
         \<and> \<bar>strafe (tickCommand inp)\<bar> \<le> 0.05
         \<and> \<bar>turn (tickCommand inp)\<bar> \<le> 0.05)"
  using motion_cycle_start [OF assms(1,2,3), of k] assms(4)
  by (simp add: tickCommand_def)

theorem cycle_start_idle_witness:
  "unit_draw (3 / 4) \<and> nowMs (tick_at 40000 (3 / 4)) = int 10 * cycleDuration
   \<and> cycleIndex 40000 = 0
   \<and> \<bar>drive (tickCommand (tick_at 40000 (3 / 4)))\<bar> \<le> 0.05
   \<and> \<bar>strafe (tickCommand (tick_at 40000 (3 / 4)))\<bar> \<le> 0.05
   \<and> \<bar>turn (tickCommand (tick_at 40000 (3 / 4)))\<bar> \<le> 0.05"
  using cycle_start_idle [of "tick_at 40000 (3 / 4)" 10]
  by (simp add: tick_at_def unit_draw_def cycleDuration_def)

section \<open>Properties of the electrical model\<close>

lemma setpoint_load: "\<bar>drive (setpoint t)\<bar> + \<bar>strafe (setpoint t)\<bar> \<le> 4 / 5"
  by (simp add: setpoint_def Let_def)

lemma motion_load:
  assumes "unit_draw r1" and "unit_draw r2"
  shows "\<bar>drive (motion t r1 r2 r3)\<bar> + \<bar>strafe (motion t r1 r2 r3)\<bar> \<le> 17 / 20"
proof -
  have d: "drive (motion t r1 r2 r3) = drive (setpoint t) + (r1 - 0.5) * 0.05"
    and s: "strafe (motion t r1 r2 r3) = strafe (setpoint t) + (r2 - 0.5) * 0.05"
    by (simp_all add: motion_def addNoise_def)
  have "\<bar>drive (motion t r1 r2 r3)\<bar> \<le> \<bar>drive (setpoint t)\<bar> + \<bar>(r1 - 0.5) * 0.05\<bar>"
    unfolding d by (rule abs_triangle_ineq)
  moreover have "\<bar>strafe (motion t r1 r2 r3)\<bar> \<le> \<bar>strafe (setpoint t)\<bar> + \<bar>(r2 - 0.5) * 0.05\<bar>"
    unfolding s by (rule abs_triangle_ineq)
  ultimately show ?thesis
    using noise_small [OF assms(1)] noise_small [OF assms(2)] setpoint_load [of t] by linarith
qed

lemma simVoltage_band:
  assumes "unit_draw r1" and "unit_draw r2" and "unit_draw rv"
  shows "simVoltage (motion t r1 r2 r3) rv
       = baseVoltage - 1.5 * (\<bar>drive (motion t r1 r2 r3)\<bar> + \<bar>strafe (motion t r1 r2 r3)\<bar>)
         + (rv - 0.5) * 0.1
    \<and> \<bar>(rv - 0.5) * 0.1\<bar> \<le> 0.05
    \<and> voltage_chart_min \<le> simVoltage (motion t r1 r2 r3) rv
    \<and> 23.475 \<le> simVoltage (motion t r1 r2 r3) rv
    \<and> simVoltage (motion t r1 r2 r3) rv < 24.85
    \<and> (cycleIndex t = 0 \<longrightarrow> voltage_chart_max < simVoltage (motion t r1 r2 r3) rv)"
proof -
  define load where "load = \<bar>drive (motion t r1 r2 r3)\<bar> + \<bar>strafe (motion t r1 r2 r3)\<bar>"
  define noise where "noise = (rv - 0.5) * (0.1::real)"
  have n: "\<bar>noise\<bar> \<le> 1 / 20" "noise < 1 / 20"
    using assms(3) by (simp_all add: noise_def unit_draw_def abs_if)
  have l: "load \<le> 17 / 20" unfolding load_def by (rule motion_load [OF assms(1,2)])
  have l0: "0 \<le> load" unfolding load_def by simp
  have eq: "simVoltage (motion t r1 r2 r3) rv = 124 / 5 - 3 / 2 * load + noise"
    by (simp add: simVoltage_def voltageLoad_def baseVoltage_def load_def noise_def)
  have idle: "24 < simVoltage (motion t r1 r2 r3) rv" if c: "cycleIndex t = 0"
  proof -
    have "motion t r1 r2 r3
        = \<lparr>drive = (r1 - 0.5) * 0.05, strafe = (r2 - 0.5) * 0.05, turn = (r3 - 0.5) * 0.05\<rparr>"
      by (simp add: motion_def setpoint_def c addNoise_def)
    then have "load \<le> 1 / 40 + 1 / 40"
      using noise_small [OF assms(1)] noise_small [OF assms(2)] unfolding load_def
      by (simp only: Command.select_convs add_mono)
    then show ?thesis using n(1) unfolding eq by linarith
  qed
  have "simVoltage (motion t r1 r2 r3) rv = baseVoltage - 1.5 * load + noise"
    by (simp add: eq baseVoltage_def)
  moreover have "\<bar>noise\<bar> \<le> 0.05" using n(1) by simp
  moreover have "voltage_chart_min \<le> simVoltage (motion t r1 r2 r3) rv"
    using n l unfolding eq voltage_chart_min_def by linarith
  moreover have "23.475 \<le> simVoltage (motion t r1 r2 r3) rv"
  proof -
    have "(939 / 40 :: real) \<le> 124 / 5 - 3 / 2 * load + noise" using n l by linarith
    then show ?thesis by (simp add: eq)
  qed
  moreover have "simVoltage (motion t r1 r2 r3) rv < 24.85"
  proof -
    have "124 / 5 - 3 / 2 * load + noise < (497 / 20 :: real)" using n l0 by linarith
    then show ?thesis by (simp add: eq)
  qed
  moreover have "cycleIndex t = 0 \<longrightarrow> voltage_chart_max < simVoltage (motion t r1 r2 r3) rv"
    using idle by (simp add: voltage_chart_max_def)
  ultimately show ?thesis unfolding load_def noise_def by blast
qed

text \<open>
  C6, as stated: on every tick the voltage is the base voltage minus \<open>1.5\<close> times the load
  plus a noise within \<open>0.05\<close>, and it lies in the band of the voltage chart, 20 to 24. The
  band fails: in the idle state there is no load and the voltage is \<open>24.8\<close>, above 24.
\<close>

theorem tickVoltage_band_counterexample:
  "unit_draw (1 / 2)
   \<and> tickVoltage (tick_at 0 (1 / 2)) = 24.8
   \<and> \<not> tickVoltage (tick_at 0 (1 / 2)) \<le> voltage_chart_max"
proof -
  have c: "cycleIndex 0 = 0"
    by (simp add: cycleIndex_def cycleDuration_def signed_modulo_int_def)
  show ?thesis
    by (simp add: tick_at_def unit_draw_def tickVoltage_def tickCommand_def simVoltage_def
        voltageLoad_def baseVoltage_def motion_def setpoint_def c addNoise_def voltage_chart_max_def)
qed

text \<open>
  C6, amended: on every tick the voltage is the base voltage minus \<open>1.5\<close> times the load
  \<open>\<bar>drive\<bar> + \<bar>strafe\<bar>\<close> plus a noise within \<open>0.05\<close>; it lies between \<open>23.475\<close> and
  \<open>24.85\<close>, so never below the minimum 20 of the voltage chart, and above the chart's
  maximum 24 in every tick of the idle state.
\<close>

theorem tickVoltage_band:
  assumes "unit_draw (rndDrive inp)" and "unit_draw (rndStrafe inp)" and "unit_draw (rndVoltage inp)"
  shows "tickVoltage inp
       = baseVoltage - 1.5 * (\<bar>drive (tickCommand inp)\<bar> + \<bar>strafe (tickCommand inp)\<bar>)
         + (rndVoltage inp - 0.5) * 0.1
    \<and> \<bar>(rndVoltage inp - 0.5) * 0.1\<bar> \<le> 0.05
    \<and> voltage_chart_min \<le> tickVoltage inp
    \<and> 23.475 \<le> tickVoltage inp
    \<and> tickVoltage inp < 24.85
    \<and> (cycleIndex (nowMs inp) = 0 \<longrightarrow> voltage_chart_max < tickVoltage inp)"
  unfolding tickVoltage_def tickCommand_def
  by (rule simVoltage_band [OF assms])

theorem tickVoltage_band_witness:
  "unit_draw (1 / 2)
   \<and> tickVoltage (tick_at 4000 (1 / 2)) = 23.6
   \<and> voltage_chart_min \<le> tickVoltage (tick_at 4000 (1 / 2))
   \<and> tickVoltage (tick_at 4000 (1 / 2)) < 24.85
   \<and> cycleIndex (nowMs (tick_at 20000 (1 / 2))) = 0
   \<and> voltage_chart_max < tickVoltage (tick_at 20000 (1 / 2))"
proof -
  have c: "cycleIndex 4000 = 1" and c0: "cycleIndex 20000 = 0"
    by (simp_all add: cycleIndex_def cycleDuration_def signed_modulo_int_def)
  have u: "unit_draw (1 / 2)" by (simp add: unit_draw_def)
  have n: "nowMs (tick_at 20000 (1 / 2)) = 20000" by (simp add: tick_at_def)
  have "voltage_chart_max < tickVoltage (tick_at 20000 (1 / 2))"
    using tickVoltage_band [of "tick_at 20000 (1 / 2)"] u c0 n by (simp add: tick_at_def)
  moreover have "tickVoltage (tick_at 4000 (1 / 2)) = 23.6
      \<and> voltage_chart_min \<le> tickVoltage (tick_at 4000 (1 / 2))
      \<and> tickVoltage (tick_at 4000 (1 / 2)) < 24.85"
    using tickVoltage_band [of "tick_at 4000 (1 / 2)"] u c
    by (simp add: tick_at_def tickCommand_def motion_def setpoint_def addNoise_def baseVoltage_def)
  ultimately show ?thesis using u c0 n by simp
qed

section \<open>Properties of the rolling series\<close>

lemma length_push_shift: "length (push_shift xs v) = length xs"
  by (simp add: push_shift_def)

lemma updateModeData_other: "m' \<noteq> m \<Longrightarrow> updateModeData cd m r v m' = cd m'"
  by (simp add: updateModeData_def split: ModeData.splits)

lemma updateModeData_multi: "\<not> single_line cd m \<Longrightarrow> updateModeData cd m r v = cd"
  by (simp add: updateModeData_def single_line_def split: ModeData.splits)

lemma single_line_updateModeData:
  "single_line (updateModeData cd m r v) m' = single_line cd m'"
  by (cases "cd m"; cases "m' = m") (simp_all add: updateModeData_def single_line_def)

lemma series_updateModeData:
  "series (updateModeData cd m r v) m' r' =
     (if m' = m \<and> r' = r then push_shift (series cd m r) v else series cd m' r')"
  by (auto simp: updateModeData_def series_def push_shift_def split: ModeData.splits)

lemma foldl_add_sum: "foldl (\<lambda>a b. a + b) a xs = a + sum_list (xs :: real list)"
  by (induction xs arbitrary: a) simp_all

lemma average60_mean: "length buf = 60 \<Longrightarrow> average60 buf = mean buf"
  by (simp add: average60_def mean_def foldl_add_sum)

lemma length_series_updateModeData:
  "length (series (updateModeData cd m r v) m' r') = length (series cd m' r')"
  by (simp add: series_updateModeData length_push_shift)

lemma length_series_pushSeconds:
  "length (series (chartData (pushSeconds s stamp p v i)) m r) = length (series (chartData s) m r)"
  by (simp add: pushSeconds_def length_series_updateModeData)

lemma length_series_aggregateMinutes:
  "length (series (chartData (aggregateMinutes s)) m r) = length (series (chartData s) m r)"
  by (simp add: aggregateMinutes_def Let_def length_series_updateModeData)

lemma length_series_aggregateHours:
  "length (series (chartData (aggregateHours s)) m r) = length (series (chartData s) m r)"
  by (simp add: aggregateHours_def Let_def length_series_updateModeData)

lemma length_series_updateTime:
  "length (series (chartData (updateTime s inp)) m r) = length (series (chartData s) m r)"
  by (simp add: updateTime_def Let_def length_series_pushSeconds length_series_aggregateMinutes
      length_series_aggregateHours)

lemma length_series_runTicks:
  "length (series (chartData (runTicks s inps)) m r) = length (series (chartData s) m r)"
  unfolding runTicks_def
  by (induction inps arbitrary: s) (simp_all add: length_series_updateTime)

lemma length_generateDenseData:
  "0 \<le> points \<Longrightarrow> length (generateDenseData points mn mx v rnd) = nat points"
  by (simp add: generateDenseData_def generateDenseData_loop_length)

lemma length_series_init:
  "m \<noteq> Torque \<Longrightarrow> length (series (chartData_init rnds) m r) = capacity r"
  by (cases m; cases r)
     (simp_all add: series_def chartData_init_def createModeData_def length_generateDenseData)


lemma length_series_writeRef:
  "length xs = length (readRef cd ref) \<Longrightarrow>
     length (series (writeRef cd ref xs) m r) = length (series cd m r)"
  by (cases ref) (auto simp: series_def split: ModeData.splits)

lemma length_series_updateTime_js:
  "length (series (chartData_js (updateTime_js s inp)) m r) = length (series (chartData_js s) m r)"
  by (simp add: updateTime_js_def Let_def length_series_writeRef length_push_shift
      split: list.splits)

lemma chartData_updateChart: "chartData_js (updateChart s) = chartData_js s"
  by (simp add: updateChart_def)

lemma length_series_step_js:
  "length (series (chartData_js (step_js s ev)) m r) = length (series (chartData_js s) m r)"
  by (cases ev) (simp_all add: length_series_updateTime_js chartData_updateChart)

lemma length_series_run_js:
  "length (series (chartData_js (run_js s evs)) m r) = length (series (chartData_js s) m r)"
  unfolding run_js_def
  by (induction evs arbitrary: s) (simp_all add: length_series_step_js)

text \<open>
  C2: for every tick and every single-line series (power, voltage and current at each
  granularity) the length after the tick equals the length before it, in main.ts and
  in the first variant of main.js; the series are generated with 60, 60 and 25 points,
  so they have these lengths after every run of ticks (and of mode and range
  selections) from the loaded page.
\<close>

theorem series_length_invariant:
  "length (series (chartData (updateTime s inp)) m r) = length (series (chartData s) m r)
   \<and> length (series (chartData_js (updateTime_js s' inp)) m r)
       = length (series (chartData_js s') m r)
   \<and> (m \<noteq> Torque \<longrightarrow>
        single_line (chartData_init rnds) m
        \<and> length (series (chartData (runTicks (initState rnds) inps)) m r) = capacity r
        \<and> length (series (chartData_js (run_js (initState_js rnds) evs)) m r) = capacity r)"
proof (intro conjI impI)
  assume m: "m \<noteq> Torque"
  show "single_line (chartData_init rnds) m"
    using m by (cases m) (simp_all add: single_line_def chartData_init_def createModeData_def)
  show "length (series (chartData (runTicks (initState rnds) inps)) m r) = capacity r"
    using m by (simp add: length_series_runTicks initState_def length_series_init)
  show "length (series (chartData_js (run_js (initState_js rnds) evs)) m r) = capacity r"
    using m by (simp add: length_series_run_js initState_js_def length_series_init)
qed (rule length_series_updateTime length_series_updateTime_js)+


theorem series_length_invariant_witness:
  "Voltage \<noteq> Torque
   \<and> length (series (chartData (updateTime (flat_state 3 0) (tick_at 1000 (1 / 2)))) Voltage Hours) = 25
   \<and> length (series (chartData_js (updateTime_js flat_state_js (tick_at 1000 (1 / 2)))) Voltage Hours) = 25
   \<and> length (series (chartData (runTicks (initState half_rnds) [tick_at 1000 (1 / 2)])) Voltage Hours) = 25
   \<and> length (series (chartData_js (run_js (initState_js half_rnds) [Tick (tick_at 1000 (1 / 2))]))
        Voltage Hours) = 25"
  using series_length_invariant [of "flat_state 3 0" "tick_at 1000 (1 / 2)" Voltage Hours
      flat_state_js half_rnds "[tick_at 1000 (1 / 2)]" "[Tick (tick_at 1000 (1 / 2))]"]
  by (simp add: flat_state_def flat_state_js_def flat_chart_def series_def)

section \<open>The torque series\<close>

lemma torque_updateTime: "chartData (updateTime s inp) Torque = chartData s Torque"
  by (simp add: updateTime_def Let_def pushSeconds_def aggregateMinutes_def aggregateHours_def
      updateModeData_other)

lemma torque_runTicks: "chartData (runTicks s inps) Torque = chartData s Torque"
  unfolding runTicks_def
  by (induction inps arbitrary: s) (simp_all add: torque_updateTime)

lemma writeRef_other:
  "ref \<in> set (getDatasetForMode cd m r) \<Longrightarrow> m' \<noteq> m \<Longrightarrow> writeRef cd ref xs m' = cd m'"
  by (cases "cd m") (auto simp: getDatasetForMode_def)

lemma getDatasetForMode_writeRef:
  "getDatasetForMode (writeRef cd ref xs) m r = getDatasetForMode cd m r"
  by (cases ref) (auto simp: getDatasetForMode_def split: ModeData.splits)

lemma getDatasetForMode_cong:
  "cd' m = cd m \<Longrightarrow> getDatasetForMode cd' m r = getDatasetForMode cd m r"
  by (simp add: getDatasetForMode_def)

lemma updateTime_js_not_single: "length (datasets s) \<noteq> 1 \<Longrightarrow> updateTime_js s inp = s"
  by (cases "datasets s" rule: list.exhaust)
     (auto simp: updateTime_js_def Let_def split: list.splits)

lemma torque_updateTime_js:
  assumes "linked s"
    and "length (getDatasetForMode (chartData_js s) Torque (currentTimeRange s)) \<noteq> 1"
  shows "chartData_js (updateTime_js s inp) Torque = chartData_js s Torque"
proof (cases "length (datasets s) = 1")
  case False
  then show ?thesis by (simp add: updateTime_js_not_single)
next
  case True
  then obtain ref where ref: "datasets s = [ref]"
    by (cases "datasets s") (auto simp: length_Suc_conv)
  have ne: "currentMode s \<noteq> Torque"
    using assms True by (auto simp: linked_def)
  have "getDatasetForMode (chartData_js s) (currentMode s) (currentTimeRange s) = [ref]"
    using assms(1) ref by (metis linked_def)
  then have "ref \<in> set (getDatasetForMode (chartData_js s) (currentMode s) (currentTimeRange s))"
    by simp
  then have "writeRef (chartData_js s) ref xs Torque = chartData_js s Torque" for xs
    using ne by (intro writeRef_other) auto
  then show ?thesis by (simp add: updateTime_js_def Let_def ref)
qed

lemma linked_updateTime_js: "linked s \<Longrightarrow> linked (updateTime_js s inp)"
  by (auto simp: linked_def updateTime_js_def Let_def getDatasetForMode_writeRef split: list.splits)

lemma linked_step_js: "linked s \<Longrightarrow> linked (step_js s ev)"
  by (cases ev) (simp_all add: linked_updateTime_js, simp_all add: linked_def updateChart_def)

lemma torque_step_js:
  assumes "linked s" and "\<forall>r. length (getDatasetForMode (chartData_js s) Torque r) \<noteq> 1"
  shows "chartData_js (step_js s ev) Torque = chartData_js s Torque"
  using assms by (cases ev) (simp_all add: torque_updateTime_js chartData_updateChart)

lemma torque_run_js:
  "linked s \<Longrightarrow> \<forall>r. length (getDatasetForMode (chartData_js s) Torque r) \<noteq> 1 \<Longrightarrow>
     chartData_js (run_js s evs) Torque = chartData_js s Torque"
  unfolding run_js_def
proof (induction evs arbitrary: s)
  case Nil
  then show ?case by simp
next
  case (Cons ev evs)
  have t: "chartData_js (step_js s ev) Torque = chartData_js s Torque"
    using Cons.prems by (rule torque_step_js)
  have l: "linked (step_js s ev)" using Cons.prems(1) by (rule linked_step_js)
  have n: "\<forall>r. length (getDatasetForMode (chartData_js (step_js s ev)) Torque r) \<noteq> 1"
    using Cons.prems(2) getDatasetForMode_cong [of "chartData_js (step_js s ev)" Torque "chartData_js s", OF t]
    by simp
  show ?case using Cons.IH [OF l n] t by simp
qed

lemma torque_init_count: "length (getDatasetForMode (chartData_init rnds) Torque r) = 4"
  by (cases r) (simp_all add: getDatasetForMode_def chartData_init_def torqueDatasets_def)

lemma linked_init: "linked (initState_js rnds)"
  by (simp add: linked_def initState_js_def)

text \<open>
  C9: a tick never changes a torque series. In main.ts the tick leaves the torque entry
  of the chart data as it is, and \<^verbatim>\<open>updateModeData\<close> returns at once for a mode that
  is not single-line; in main.js the tick changes nothing unless exactly one dataset is
  shown, and torque shows four. So after every run of ticks from the loaded page the
  torque datasets are the generated ones.
\<close>

theorem torque_untouched:
  "chartData (updateTime s inp) Torque = chartData s Torque
   \<and> (\<not> single_line cd m \<longrightarrow> updateModeData cd m r v = cd)
   \<and> (length (datasets s') \<noteq> 1 \<longrightarrow> updateTime_js s' inp = s')
   \<and> \<not> single_line (chartData_init rnds) Torque
   \<and> length (getDatasetForMode (chartData_init rnds) Torque r) = 4
   \<and> chartData (runTicks (initState rnds) inps) Torque = chartData_init rnds Torque
   \<and> chartData_js (run_js (initState_js rnds) evs) Torque = chartData_init rnds Torque"
proof (intro conjI impI)
  show "chartData (updateTime s inp) Torque = chartData s Torque" by (rule torque_updateTime)
  show "updateModeData cd m r v = cd" if "\<not> single_line cd m"
    using that by (rule updateModeData_multi)
  show "updateTime_js s' inp = s'" if "length (datasets s') \<noteq> 1"
    using that by (rule updateTime_js_not_single)
  show "\<not> single_line (chartData_init rnds) Torque"
    by (simp add: single_line_def chartData_init_def)
  show "length (getDatasetForMode (chartData_init rnds) Torque r) = 4"
    by (rule torque_init_count)
  show "chartData (runTicks (initState rnds) inps) Torque = chartData_init rnds Torque"
    by (simp add: torque_runTicks initState_def)
  have "\<forall>r. length (getDatasetForMode (chartData_js (initState_js rnds)) Torque r) \<noteq> 1"
    by (simp add: initState_js_def torque_init_count)
  then have "chartData_js (run_js (initState_js rnds) evs) Torque
      = chartData_js (initState_js rnds) Torque"
    using linked_init by (intro torque_run_js)
  then show "chartData_js (run_js (initState_js rnds) evs) Torque = chartData_init rnds Torque"
    by (simp add: initState_js_def)
qed

theorem torque_untouched_witness:
  "\<not> single_line (flat_chart 0) Torque
   \<and> updateModeData (flat_chart 0) Torque Seconds 7 = flat_chart 0
   \<and> length (datasets (updateChart (flat_state_js\<lparr>currentMode := Torque\<rparr>))) \<noteq> 1
   \<and> updateTime_js (updateChart (flat_state_js\<lparr>currentMode := Torque\<rparr>)) (tick_at 1000 (1 / 2))
       = updateChart (flat_state_js\<lparr>currentMode := Torque\<rparr>)
   \<and> chartData (updateTime (flat_state 3 0) (tick_at 1000 (1 / 2))) Torque = flat_chart 0 Torque
   \<and> chartData_js (run_js (initState_js half_rnds) [SelectMode Torque, Tick (tick_at 1000 (1 / 2))])
        Torque = chartData_init half_rnds Torque"
  using torque_untouched [of "flat_state 3 0" "tick_at 1000 (1 / 2)" "flat_chart 0" Torque Seconds 7
      "updateChart (flat_state_js\<lparr>currentMode := Torque\<rparr>)" half_rnds
      "[]" "[SelectMode Torque, Tick (tick_at 1000 (1 / 2))]"]
  by (simp add: flat_state_def flat_state_js_def flat_chart_def single_line_def updateChart_def
      getDatasetForMode_def)


section \<open>The aggregation cascade\<close>

lemma secBuffer_next:
  assumes "nowGate inp - lastSecondUpdate s \<ge> 1000" and "length (power (secBuffer s)) < 59"
  shows "secBuffer (updateTime s inp)
      = \<lparr>power = power (secBuffer s) @ [tickPower inp],
         voltage = voltage (secBuffer s) @ [tickVoltage inp],
         current = current (secBuffer s) @ [tickCurrent inp]\<rparr>"
  using assms
  by (simp add: updateTime_def Let_def pushSeconds_def aggregateMinutes_def aggregateHours_def)

lemma sec_pending:
  assumes "nowGate inp - lastSecondUpdate s \<ge> 1000" and "length (power (secBuffer s)) < 59"
    and "length (power (minBuffer s)) < 60"
  shows "minBuffer (updateTime s inp) = minBuffer s"
    and "series (chartData (updateTime s inp)) m Minutes = series (chartData s) m Minutes"
    and "series (chartData (updateTime s inp)) m Hours = series (chartData s) m Hours"
  using assms
  by (simp_all add: updateTime_def Let_def pushSeconds_def series_updateModeData)

lemma sec_full:
  assumes "nowGate inp - lastSecondUpdate s \<ge> 1000" and "buffer_ok (secBuffer s)"
    and "length (power (secBuffer s)) = 59"
  shows "secBuffer (updateTime s inp) = \<lparr>power = [], voltage = [], current = []\<rparr>"
    and "series (chartData (updateTime s inp)) Power Minutes
       = push_shift (series (chartData s) Power Minutes) (mean (power (secBuffer s) @ [tickPower inp]))"
    and "series (chartData (updateTime s inp)) Voltage Minutes
       = push_shift (series (chartData s) Voltage Minutes)
           (mean (voltage (secBuffer s) @ [tickVoltage inp]))"
    and "series (chartData (updateTime s inp)) Current Minutes
       = push_shift (series (chartData s) Current Minutes)
           (mean (current (secBuffer s) @ [tickCurrent inp]))"
  using assms
  by (simp_all add: updateTime_def Let_def pushSeconds_def aggregateMinutes_def aggregateHours_def
      series_updateModeData average60_mean buffer_ok_def)



lemma buffer_ok_updateTime:
  assumes "buffer_ok (secBuffer s)" and "buffer_ok (minBuffer s)"
  shows "buffer_ok (secBuffer (updateTime s inp)) \<and> buffer_ok (minBuffer (updateTime s inp))"
  using assms
  by (auto simp: updateTime_def Let_def pushSeconds_def aggregateMinutes_def aggregateHours_def
      buffer_ok_def)

lemma single_line_updateTime:
  "single_line (chartData (updateTime s inp)) m = single_line (chartData s) m"
  by (simp add: updateTime_def Let_def pushSeconds_def aggregateMinutes_def aggregateHours_def
      single_line_updateModeData)

lemma reachable_ok:
  "buffer_ok (secBuffer (runTicks (initState rnds) inps))
   \<and> buffer_ok (minBuffer (runTicks (initState rnds) inps))"
proof -
  have "buffer_ok (secBuffer s) \<and> buffer_ok (minBuffer s) \<Longrightarrow>
      buffer_ok (secBuffer (foldl updateTime s inps)) \<and> buffer_ok (minBuffer (foldl updateTime s inps))"
    for s
    by (induction inps arbitrary: s) (simp_all add: buffer_ok_updateTime)
  then show ?thesis by (simp add: runTicks_def initState_def buffer_ok_def)
qed







text \<open>
  The same over a run from an empty seconds buffer: 59 gated ticks fill the buffer and
  leave the minutes series alone, the 60th appends the mean of the 60 samples and
  empties the buffer.
\<close>

lemma runTicks_Cons: "runTicks s (inp # inps) = runTicks (updateTime s inp) inps"
  by (simp add: runTicks_def)

lemma runTicks_snoc: "runTicks s (inps @ [inp]) = updateTime (runTicks s inps) inp"
  by (simp add: runTicks_def)

lemma gated_append: "gated s (xs @ ys) = (gated s xs \<and> gated (runTicks s xs) ys)"
  by (induction xs arbitrary: s) (simp_all add: runTicks_def)

lemma run_pending:
  "gated s inps \<Longrightarrow> buffer_ok (secBuffer s) \<Longrightarrow> buffer_ok (minBuffer s) \<Longrightarrow>
   length (power (secBuffer s)) + length inps < 60 \<Longrightarrow>
     secBuffer (runTicks s inps)
       = \<lparr>power = power (secBuffer s) @ map tickPower inps,
          voltage = voltage (secBuffer s) @ map tickVoltage inps,
          current = current (secBuffer s) @ map tickCurrent inps\<rparr>
     \<and> minBuffer (runTicks s inps) = minBuffer s
     \<and> series (chartData (runTicks s inps)) m Minutes = series (chartData s) m Minutes"
proof (induction inps arbitrary: s)
  case Nil
  then show ?case by (simp add: runTicks_def)
next
  case (Cons inp inps)
  have gate: "nowGate inp - lastSecondUpdate s \<ge> 1000" and rest: "gated (updateTime s inp) inps"
    using Cons.prems(1) by simp_all
  have less: "length (power (secBuffer s)) < 59" using Cons.prems(4) by simp
  have mless: "length (power (minBuffer s)) < 60" using Cons.prems(3) by (simp add: buffer_ok_def)
  note nx = secBuffer_next [OF gate less]
  note sp = sec_pending [OF gate less mless]
  note ok = buffer_ok_updateTime [OF Cons.prems(2,3), of inp]
  have len: "length (power (secBuffer (updateTime s inp))) + length inps < 60"
    using Cons.prems(4) by (simp add: nx)
  have ih: "secBuffer (runTicks (updateTime s inp) inps)
       = \<lparr>power = power (secBuffer (updateTime s inp)) @ map tickPower inps,
          voltage = voltage (secBuffer (updateTime s inp)) @ map tickVoltage inps,
          current = current (secBuffer (updateTime s inp)) @ map tickCurrent inps\<rparr>
     \<and> minBuffer (runTicks (updateTime s inp) inps) = minBuffer (updateTime s inp)
     \<and> series (chartData (runTicks (updateTime s inp) inps)) m Minutes
         = series (chartData (updateTime s inp)) m Minutes"
    using Cons.IH [OF rest _ _ len] ok by blast
  show ?case using ih by (simp add: runTicks_Cons nx sp)
qed

lemma sixty_ticks:
  assumes "gated s (inps @ [inp])" and "length inps = 59"
    and "secBuffer s = \<lparr>power = [], voltage = [], current = []\<rparr>"
    and "buffer_ok (minBuffer s)"
  shows "secBuffer (runTicks s inps)
       = \<lparr>power = map tickPower inps, voltage = map tickVoltage inps,
          current = map tickCurrent inps\<rparr>"
    and "series (chartData (runTicks s inps)) m Minutes = series (chartData s) m Minutes"
    and "secBuffer (runTicks s (inps @ [inp])) = \<lparr>power = [], voltage = [], current = []\<rparr>"
    and "series (chartData (runTicks s (inps @ [inp]))) Power Minutes
       = push_shift (series (chartData s) Power Minutes) (mean (map tickPower (inps @ [inp])))"
    and "series (chartData (runTicks s (inps @ [inp]))) Voltage Minutes
       = push_shift (series (chartData s) Voltage Minutes) (mean (map tickVoltage (inps @ [inp])))"
    and "series (chartData (runTicks s (inps @ [inp]))) Current Minutes
       = push_shift (series (chartData s) Current Minutes) (mean (map tickCurrent (inps @ [inp])))"
proof -
  have g: "gated s inps" and gate: "nowGate inp - lastSecondUpdate (runTicks s inps) \<ge> 1000"
    using assms(1) by (simp_all add: gated_append)
  have ok: "buffer_ok (secBuffer s)" by (simp add: assms(3) buffer_ok_def)
  have len: "length (power (secBuffer s)) + length inps < 60" by (simp add: assms(2,3))
  have rp: "secBuffer (runTicks s inps)
       = \<lparr>power = map tickPower inps, voltage = map tickVoltage inps,
          current = map tickCurrent inps\<rparr>"
      "series (chartData (runTicks s inps)) m' Minutes = series (chartData s) m' Minutes" for m'
    using run_pending [OF g ok assms(4) len, of m'] by (simp_all add: assms(3))
  show "secBuffer (runTicks s inps)
       = \<lparr>power = map tickPower inps, voltage = map tickVoltage inps,
          current = map tickCurrent inps\<rparr>"
    by (rule rp(1))
  show "series (chartData (runTicks s inps)) m Minutes = series (chartData s) m Minutes"
    by (rule rp(2))
  have ok': "buffer_ok (secBuffer (runTicks s inps))" by (simp add: rp(1) buffer_ok_def assms(2))
  have full: "length (power (secBuffer (runTicks s inps))) = 59" by (simp add: rp(1) assms(2))
  note sf = sec_full [OF gate ok' full]
  show "secBuffer (runTicks s (inps @ [inp])) = \<lparr>power = [], voltage = [], current = []\<rparr>"
    by (simp add: runTicks_snoc sf(1))
  show "series (chartData (runTicks s (inps @ [inp]))) Power Minutes
       = push_shift (series (chartData s) Power Minutes) (mean (map tickPower (inps @ [inp])))"
    by (simp add: runTicks_snoc sf(2) rp)
  show "series (chartData (runTicks s (inps @ [inp]))) Voltage Minutes
       = push_shift (series (chartData s) Voltage Minutes) (mean (map tickVoltage (inps @ [inp])))"
    by (simp add: runTicks_snoc sf(3) rp)
  show "series (chartData (runTicks s (inps @ [inp]))) Current Minutes
       = push_shift (series (chartData s) Current Minutes) (mean (map tickCurrent (inps @ [inp])))"
    by (simp add: runTicks_snoc sf(4) rp)
qed


end
